theory Spec2Isabelle
  imports Main
begin

section \<open>The lazy modal registry of packages/shared/src/components/modals/common.tsx\<close>

subsection \<open>Variant identifiers\<close>

text \<open>
  Modelled from the spec: the enum \<^verbatim>\<open>LazyModal\<close> is declared in \<^verbatim>\<open>./common/types\<close>, a file
  whose source is not available. Its members are taken to be the nine that
  \<^verbatim>\<open>common.tsx\<close> uses as the computed keys of \<^verbatim>\<open>modals\<close>; the type
  \<^verbatim>\<open>LazyModalComponentType<K extends LazyModal>\<close> indexes \<^verbatim>\<open>ModalsType[K]\<close>, which is
  well-typed only when every member of the enum is such a key.
\<close>

datatype LazyModal =
    SquadMember
  | UpvotedPopup
  | SquadTour
  | ReadingHistory
  | SquadPromotion
  | CreateSharedPost
  | ReportPost
  | ReportComment
  | SquadNotifications

subsection \<open>The registry object\<close>

text \<open>
  Every registry value is \<^verbatim>\<open>dynamic(() => import(/* webpackChunkName: c */ p))\<close>: a deferred
  loader, described by the chunk name \<open>c\<close> and the module path \<open>p\<close> it imports. What
  \<^verbatim>\<open>dynamic\<close> (of the package next/dynamic) and \<^verbatim>\<open>import()\<close> do when the loader is run is not
  code of this repository.
\<close>

record DynamicImport =
  webpackChunkName :: string
  modulePath :: string

definition SquadMemberModal :: DynamicImport where
  "SquadMemberModal =
     \<lparr>webpackChunkName = ''squadMemberModal'', modulePath = ''./SquadMemberModal''\<rparr>"

definition UpvotedPopupModal :: DynamicImport where
  "UpvotedPopupModal =
     \<lparr>webpackChunkName = ''upvotedPopupModal'', modulePath = ''./UpvotedPopupModal''\<rparr>"

definition SquadTourModal :: DynamicImport where
  "SquadTourModal =
     \<lparr>webpackChunkName = ''squadTourModal'', modulePath = ''./SquadTourModal''\<rparr>"

definition SquadPromotionModal :: DynamicImport where
  "SquadPromotionModal =
     \<lparr>webpackChunkName = ''squadPromotionModal'',
      modulePath = ''./squads/SquadPromotionModal''\<rparr>"

definition ReadingHistoryModal :: DynamicImport where
  "ReadingHistoryModal =
     \<lparr>webpackChunkName = ''readingHistoryModal'',
      modulePath = ''./post/ReadingHistoryModal''\<rparr>"

definition CreateSharedPostModal :: DynamicImport where
  "CreateSharedPostModal =
     \<lparr>webpackChunkName = ''createSharedPostModal'',
      modulePath = ''./post/CreateSharedPostModal''\<rparr>"

definition ReportPostModal :: DynamicImport where
  "ReportPostModal =
     \<lparr>webpackChunkName = ''reportPostModal'', modulePath = ''./report/ReportPostModal''\<rparr>"

definition ReportCommentModal :: DynamicImport where
  "ReportCommentModal =
     \<lparr>webpackChunkName = ''reportCommentModal'',
      modulePath = ''./report/ReportCommentModal''\<rparr>"

definition SquadNotificationsModal :: DynamicImport where
  "SquadNotificationsModal =
     \<lparr>webpackChunkName = ''squadNotificationsModal'',
      modulePath = ''./squads/SquadNotificationsModal''\<rparr>"

text \<open>
  The object literal \<^verbatim>\<open>modals\<close>, as the list of its properties in the order they are
  written.
\<close>

definition modals :: "(LazyModal \<times> DynamicImport) list" where
  "modals =
     [(SquadMember, SquadMemberModal),
      (UpvotedPopup, UpvotedPopupModal),
      (SquadTour, SquadTourModal),
      (ReadingHistory, ReadingHistoryModal),
      (SquadPromotion, SquadPromotionModal),
      (CreateSharedPost, CreateSharedPostModal),
      (ReportPost, ReportPostModal),
      (ReportComment, ReportCommentModal),
      (SquadNotifications, SquadNotificationsModal)]"

text \<open>
  The property access \<^verbatim>\<open>modals[k]\<close>. In an object literal a key written twice keeps the
  value written last, hence the lookup from the end of the list.
\<close>

definition resolve :: "LazyModal \<Rightarrow> DynamicImport option" where
  "resolve k = map_of (rev modals) k"

subsection \<open>Object types and the utility types of the TypeScript library\<close>

text \<open>
  The type of a property value. The derivations below tell \<^verbatim>\<open>never\<close> from every other
  type and look no further into a type, which is kept by its name.
\<close>

datatype tstype = NeverType | OtherType string

text \<open>
  An object type is the list of its properties: a name, whether the property is
  declared optional (\<^verbatim>\<open>name?: T\<close>), and the type of its value. The names of an object
  type are distinct.
\<close>

record property =
  pname :: string
  optional :: bool
  ptype :: tstype

type_synonym shape = "property list"

text \<open>\<^verbatim>\<open>keyof T\<close>, a union of string literal types, as the list of the names.\<close>

definition keyof :: "shape \<Rightarrow> string list" where
  "keyof T = map pname T"

text \<open>\<^verbatim>\<open>Exclude<T, U> = T extends U ? never : T\<close>, distributed over the union \<open>T\<close>.\<close>

definition Exclude :: "string list \<Rightarrow> string list \<Rightarrow> string list" where
  "Exclude T U = filter (\<lambda>k. k \<notin> set U) T"

text \<open>
  \<^verbatim>\<open>Pick<T, K> = { [P in K]: T[P] }\<close>: a homomorphic mapped type, so each property picked
  keeps the modifier (optional or not) it has in \<open>T\<close>.
\<close>

definition Pick :: "shape \<Rightarrow> string list \<Rightarrow> shape" where
  "Pick T K = filter (\<lambda>p. pname p \<in> set K) T"

text \<open>\<^verbatim>\<open>Omit<T, K> = Pick<T, Exclude<keyof T, K>>\<close>.\<close>

definition Omit :: "shape \<Rightarrow> string list \<Rightarrow> shape" where
  "Omit T K = Pick T (Exclude (keyof T) K)"

subsection \<open>The derived types of common.tsx\<close>

text \<open>
  \<^verbatim>\<open>ModalsType = typeof modals\<close> gives every key the type of its component. The renderer
  modules, which declare the props, are not available: the typing of the
  registry is a parameter \<open>MT\<close> of everything below. A value of \<^verbatim>\<open>dynamic(...)\<close> is a
  \<^verbatim>\<open>React.ComponentType<P>\<close>.
\<close>

datatype component = ComponentType shape | Component shape

type_synonym ModalsType = "LazyModal \<Rightarrow> component"

text \<open>
  \<^verbatim>\<open>GetComponentProps<T> = T extends ComponentType<infer P> | Component<infer P> ? P : never\<close>.
  Both alternatives of the union yield the props; the \<^verbatim>\<open>never\<close> branch is not reached on
  a \<open>component\<close>.
\<close>

fun GetComponentProps :: "component \<Rightarrow> shape" where
  "GetComponentProps (ComponentType P) = P"
| "GetComponentProps (Component P) = P"

definition LazyModalComponentType :: "ModalsType \<Rightarrow> LazyModal \<Rightarrow> shape" where
  "LazyModalComponentType MT K =
     Omit (GetComponentProps (MT K)) [''isOpen'', ''onRequestClose'']"

text \<open>
  \<^verbatim>\<open>RequiredKeys<T>\<close> maps every key \<open>K\<close> of \<open>T\<close> to \<^verbatim>\<open>never\<close> when
  \<^verbatim>\<open>Record<string, never> extends { [P in K]: T[K] }\<close> and to \<open>K\<close> otherwise, and takes the
  union of the results. The object type with the single property \<open>K\<close> keeps the modifier
  of \<open>K\<close> in \<open>T\<close>; a type with no property is assignable to it exactly when that property
  is optional.
\<close>

definition RequiredKeys :: "shape \<Rightarrow> string list" where
  "RequiredKeys T = concat (map (\<lambda>p. if optional p then [] else [pname p]) T)"

definition NonOptional :: "shape \<Rightarrow> shape" where
  "NonOptional T = Pick T (RequiredKeys T)"

text \<open>
  \<^verbatim>\<open>X extends Record<string, never>\<close> for an object type \<open>X\<close> that a mapped type
  produces: \<open>X\<close> is given an implicit index signature, so the test asks of every property
  of \<open>X\<close> that its value type be assignable to \<^verbatim>\<open>never\<close>, which only \<^verbatim>\<open>never\<close> is. It holds
  when \<open>X\<close> has no property, and also when all its properties are typed \<^verbatim>\<open>never\<close>.
\<close>

definition extendsRecordStringNever :: "shape \<Rightarrow> bool" where
  "extendsRecordStringNever X = list_all (\<lambda>p. ptype p = NeverType) X"

text \<open>
  The object type that \<^verbatim>\<open>LazyModalType<T>\<close> evaluates to: the \<^verbatim>\<open>type\<close> tag, the type of
  \<^verbatim>\<open>props\<close>, and whether \<^verbatim>\<open>props\<close> is declared optional (\<^verbatim>\<open>props?:\<close>).
\<close>

record RequestType =
  type_tag :: LazyModal
  props_optional :: bool
  props_type :: shape

definition LazyModalType :: "ModalsType \<Rightarrow> LazyModal \<Rightarrow> RequestType" where
  "LazyModalType MT T =
     (if extendsRecordStringNever (NonOptional (LazyModalComponentType MT T))
      then \<lparr>type_tag = T, props_optional = True,
            props_type = LazyModalComponentType MT T\<rparr>
      else \<lparr>type_tag = T, props_optional = False,
            props_type = LazyModalComponentType MT T\<rparr>)"

text \<open>
  The specification's names for the two derived notions: the payload contract of a
  variant is the type of \<^verbatim>\<open>props\<close>, and the payload is required when \<^verbatim>\<open>props\<close> is not
  declared optional.
\<close>

definition contractOf :: "ModalsType \<Rightarrow> LazyModal \<Rightarrow> shape" where
  "contractOf MT k = props_type (LazyModalType MT k)"

definition payloadRequired :: "ModalsType \<Rightarrow> LazyModal \<Rightarrow> bool" where
  "payloadRequired MT k = (\<not> props_optional (LazyModalType MT k))"

subsection \<open>The request validator\<close>

text \<open>
  Modelled from the spec: the three kinds of \<^verbatim>\<open>ContractViolation\<close> of section 7, each
  with the variant identifier and, for a field, its name. The source of a validator is
  not available; \<^verbatim>\<open>common.tsx\<close> holds only the request type \<^verbatim>\<open>LazyModalType\<close>.
\<close>

datatype ContractViolation =
    MissingPayload LazyModal
  | MissingField LazyModal string
  | UnknownField LazyModal string

text \<open>
  Modelled from the spec: the \<^verbatim>\<open>ModalRequest{ id, payload }\<close> that a successful
  \<^verbatim>\<open>buildRequest\<close> returns (section 4.4, step 4); the source of the validator is not available.
  A payload is the list of its fields, name and value, in the order given.
\<close>

record 'v ModalRequest =
  variant :: LazyModal
  payload :: "(string \<times> 'v) list option"

text \<open>
  Modelled from the spec: step 2 of \<^verbatim>\<open>buildRequest\<close> (section 4.4), whose source is not
  available: the first field marked required in the contract that the payload lacks.
\<close>

definition firstMissingRequired :: "shape \<Rightarrow> (string \<times> 'v) list \<Rightarrow> property option" where
  "firstMissingRequired C p =
     List.find (\<lambda>f. \<not> optional f \<and> pname f \<notin> set (map fst p)) C"

text \<open>
  Modelled from the spec: step 3 of \<^verbatim>\<open>buildRequest\<close> (section 4.4), whose source is not
  available: the first field of the payload that is not part of the contract.
\<close>

definition firstUnknownField :: "shape \<Rightarrow> (string \<times> 'v) list \<Rightarrow> string option" where
  "firstUnknownField C p = List.find (\<lambda>n. n \<notin> set (keyof C)) (map fst p)"

text \<open>
  Modelled from the spec: the validator \<^verbatim>\<open>buildRequest(id, payload?)\<close> of section 4.4,
  whose source is not available. Its four steps in their order: a missing payload, a
  missing required field, an unknown field, success. \<open>payloadRequired\<close> and
  \<open>contractOf\<close> are the ones derived from \<^verbatim>\<open>LazyModalType\<close> above.
\<close>

definition buildRequest ::
    "ModalsType \<Rightarrow> LazyModal \<Rightarrow> (string \<times> 'v) list option
      \<Rightarrow> ContractViolation + 'v ModalRequest" where
  "buildRequest MT k pl =
     (case pl of
        None \<Rightarrow>
          if payloadRequired MT k then Inl (MissingPayload k)
          else Inr \<lparr>variant = k, payload = None\<rparr>
      | Some p \<Rightarrow>
          (case firstMissingRequired (contractOf MT k) p of
             Some f \<Rightarrow> Inl (MissingField k (pname f))
           | None \<Rightarrow>
               (case firstUnknownField (contractOf MT k) p of
                  Some n \<Rightarrow> Inl (UnknownField k n)
                | None \<Rightarrow> Inr \<lparr>variant = k, payload = Some p\<rparr>)))"

subsection \<open>A sample typing of the registry\<close>

text \<open>
  Renderer declarations to evaluate the derivations on: the two props that the modal
  host supplies, alone or followed by props of the renderer's own. \<^verbatim>\<open>ReportPost\<close> takes
  the contract \<^verbatim>\<open>{postId: required}\<close> and \<^verbatim>\<open>CreateSharedPost\<close> the contract
  \<^verbatim>\<open>{title: required, subtitle: optional}\<close> of the specification's section 8;
  \<^verbatim>\<open>SquadTour\<close> declares one optional prop of its own, and \<^verbatim>\<open>SquadPromotion\<close> one
  required prop of type \<^verbatim>\<open>never\<close>.
\<close>

definition hostProps :: shape where
  "hostProps =
     [\<lparr>pname = ''isOpen'', optional = False, ptype = OtherType ''boolean''\<rparr>,
      \<lparr>pname = ''onRequestClose'', optional = True,
       ptype = OtherType ''CloseModalFunc''\<rparr>]"

fun sampleModalsType :: ModalsType where
  "sampleModalsType ReportPost =
     ComponentType (hostProps @
       [\<lparr>pname = ''postId'', optional = False, ptype = OtherType ''string''\<rparr>])"
| "sampleModalsType CreateSharedPost =
     ComponentType (hostProps @
       [\<lparr>pname = ''title'', optional = False, ptype = OtherType ''string''\<rparr>,
        \<lparr>pname = ''subtitle'', optional = True, ptype = OtherType ''string''\<rparr>])"
| "sampleModalsType SquadTour =
     ComponentType (hostProps @
       [\<lparr>pname = ''className'', optional = True, ptype = OtherType ''string''\<rparr>])"
| "sampleModalsType SquadPromotion =
     ComponentType (hostProps @
       [\<lparr>pname = ''children'', optional = False, ptype = NeverType\<rparr>])"
| "sampleModalsType _ = ComponentType hostProps"

section \<open>Properties of the registry\<close>

lemma LazyModal_UNIV:
  "(UNIV :: LazyModal set) =
     {SquadMember, UpvotedPopup, SquadTour, ReadingHistory, SquadPromotion,
      CreateSharedPost, ReportPost, ReportComment, SquadNotifications}"
proof (rule set_eqI)
  fix k :: LazyModal
  show "k \<in> UNIV \<longleftrightarrow> k \<in> {SquadMember, UpvotedPopup, SquadTour, ReadingHistory,
      SquadPromotion, CreateSharedPost, ReportPost, ReportComment, SquadNotifications}"
    by (cases k) simp_all
qed

text \<open>
  C3: every variant identifier resolves to a registry entry, and the registry literal
  holds exactly one entry for it.
\<close>

theorem resolve_total:
  "(\<exists>e. resolve k = Some e \<and> (k, e) \<in> set modals)
   \<and> length (filter (\<lambda>e. fst e = k) modals) = 1"
  by (cases k) (simp_all add: resolve_def modals_def)

text \<open>
  C10: the identifier set has exactly the nine members SquadMember, UpvotedPopup,
  SquadTour, ReadingHistory, SquadPromotion, CreateSharedPost, ReportPost, ReportComment
  and SquadNotifications, and the keys of the registry are these nine, each once, and
  nothing else.
\<close>

theorem modals_nine_keys:
  "map fst modals =
     [SquadMember, UpvotedPopup, SquadTour, ReadingHistory, SquadPromotion,
      CreateSharedPost, ReportPost, ReportComment, SquadNotifications]
   \<and> distinct (map fst modals)
   \<and> set (map fst modals) = (UNIV :: LazyModal set)
   \<and> dom resolve = set (map fst modals)
   \<and> card (UNIV :: LazyModal set) = 9"
proof -
  have keys: "map fst modals =
     [SquadMember, UpvotedPopup, SquadTour, ReadingHistory, SquadPromotion,
      CreateSharedPost, ReportPost, ReportComment, SquadNotifications]"
    by (simp add: modals_def)
  have dist: "distinct (map fst modals)"
    by (simp add: keys)
  have univ: "set (map fst modals) = (UNIV :: LazyModal set)"
    by (simp add: keys LazyModal_UNIV)
  have r: "resolve = map_of (rev modals)"
    by (rule ext) (simp add: resolve_def)
  have d: "dom resolve = set (map fst modals)"
    unfolding r by (simp add: dom_map_of_conv_image_fst)
  have "card (set (map fst modals)) = length (map fst modals)"
    using dist by (rule distinct_card)
  then have c: "card (UNIV :: LazyModal set) = 9"
    by (simp add: univ [symmetric] keys)
  from keys dist univ d c show ?thesis by blast
qed

section \<open>Properties of the payload contract\<close>

lemma Omit_filter: "Omit T K = filter (\<lambda>p. pname p \<notin> set K) T"
  unfolding Omit_def Pick_def Exclude_def keyof_def
  by (rule filter_cong) auto

lemma contractOf_LazyModalComponentType: "contractOf MT k = LazyModalComponentType MT k"
  by (simp add: contractOf_def LazyModalType_def)

lemma contractOf_filter:
  "contractOf MT k =
     filter (\<lambda>p. pname p \<noteq> ''isOpen'' \<and> pname p \<noteq> ''onRequestClose'')
       (GetComponentProps (MT k))"
  by (simp add: contractOf_LazyModalComponentType LazyModalComponentType_def Omit_filter)

lemma RequiredKeys_set: "set (RequiredKeys T) = pname ` {p \<in> set T. \<not> optional p}"
  by (auto simp: RequiredKeys_def split: if_splits)

lemma NonOptional_filter:
  assumes "distinct (keyof T)"
  shows "NonOptional T = filter (\<lambda>p. \<not> optional p) T"
  unfolding NonOptional_def Pick_def
proof (rule filter_cong [OF refl])
  fix p assume p: "p \<in> set T"
  from assms have inj: "inj_on pname (set T)"
    by (simp add: keyof_def distinct_map)
  show "(pname p \<in> set (RequiredKeys T)) = (\<not> optional p)"
  proof
    assume "pname p \<in> set (RequiredKeys T)"
    then obtain q where q: "q \<in> set T" "\<not> optional q" "pname q = pname p"
      by (auto simp: RequiredKeys_set)
    from inj_onD [OF inj q(3) q(1) p] have "q = p" .
    with q(2) show "\<not> optional p" by simp
  next
    assume "\<not> optional p"
    with p show "pname p \<in> set (RequiredKeys T)"
      by (auto simp: RequiredKeys_set)
  qed
qed

lemma NonOptional_Nil: "NonOptional [] = []"
  by (simp add: NonOptional_def Pick_def)

lemma contractOf_distinct:
  "distinct (keyof (GetComponentProps (MT k))) \<Longrightarrow> distinct (keyof (contractOf MT k))"
  by (simp add: keyof_def contractOf_filter distinct_map_filter)

lemma payloadRequired_NonOptional:
  "payloadRequired MT k \<longleftrightarrow> \<not> extendsRecordStringNever (NonOptional (contractOf MT k))"
  by (simp add: payloadRequired_def contractOf_LazyModalComponentType LazyModalType_def)

text \<open>
  C2: the payload contract of a variant is the props type of its renderer without the
  two props that the host supplies, the visibility flag \<^verbatim>\<open>isOpen\<close> and the close callback
  \<^verbatim>\<open>onRequestClose\<close>; every other prop is kept as declared, in the declared order, and
  none is added.
\<close>

theorem contractOf_omits_host_props:
  "contractOf MT k =
     filter (\<lambda>p. pname p \<noteq> ''isOpen'' \<and> pname p \<noteq> ''onRequestClose'')
       (GetComponentProps (MT k))
   \<and> set (contractOf MT k) =
       set (GetComponentProps (MT k))
         - {p. pname p = ''isOpen'' \<or> pname p = ''onRequestClose''}"
  by (auto simp: contractOf_filter)

theorem contractOf_omits_host_props_witness:
  "contractOf sampleModalsType CreateSharedPost =
     [\<lparr>pname = ''title'', optional = False, ptype = OtherType ''string''\<rparr>,
      \<lparr>pname = ''subtitle'', optional = True, ptype = OtherType ''string''\<rparr>]"
  using contractOf_omits_host_props [of sampleModalsType CreateSharedPost]
  by (simp add: hostProps_def)

text \<open>
  C1, as amended: the payload of a variant is optional exactly when its contract has no
  required field of a type other than \<^verbatim>\<open>never\<close>, that is when the contract is empty or
  each of its fields is optional or typed \<^verbatim>\<open>never\<close>. In particular it is optional when
  the contract is empty, as for a renderer that declares the two host props only.
\<close>

theorem payloadRequired_iff_required_field:
  assumes "distinct (keyof (GetComponentProps (MT k)))"
  shows
  "(payloadRequired MT k \<longleftrightarrow>
      (\<exists>p \<in> set (contractOf MT k). \<not> optional p \<and> ptype p \<noteq> NeverType))
   \<and> (contractOf MT k = [] \<longrightarrow> \<not> payloadRequired MT k)
   \<and> (set (keyof (GetComponentProps (MT k))) \<subseteq> {''isOpen'', ''onRequestClose''}
        \<longrightarrow> \<not> payloadRequired MT k)"
proof (intro conjI impI)
  have "NonOptional (contractOf MT k) = filter (\<lambda>p. \<not> optional p) (contractOf MT k)"
    using assms by (intro NonOptional_filter contractOf_distinct)
  then show "payloadRequired MT k \<longleftrightarrow>
      (\<exists>p \<in> set (contractOf MT k). \<not> optional p \<and> ptype p \<noteq> NeverType)"
    by (auto simp: payloadRequired_NonOptional extendsRecordStringNever_def list_all_iff)
  show empty: "\<not> payloadRequired MT k" if "contractOf MT k = []"
    using that
    by (simp add: payloadRequired_NonOptional NonOptional_Nil extendsRecordStringNever_def)
  show "\<not> payloadRequired MT k"
    if "set (keyof (GetComponentProps (MT k))) \<subseteq> {''isOpen'', ''onRequestClose''}"
  proof -
    from that have "\<forall>p \<in> set (GetComponentProps (MT k)).
        pname p = ''isOpen'' \<or> pname p = ''onRequestClose''"
      by (auto simp: keyof_def)
    then have "contractOf MT k = []"
      by (auto simp: contractOf_filter filter_empty_conv)
    then show ?thesis by (rule empty)
  qed
qed

theorem payloadRequired_iff_required_field_witness:
  "distinct (keyof (GetComponentProps (sampleModalsType ReportPost)))
   \<and> payloadRequired sampleModalsType ReportPost
   \<and> \<not> payloadRequired sampleModalsType SquadTour
   \<and> \<not> payloadRequired sampleModalsType SquadPromotion
   \<and> contractOf sampleModalsType UpvotedPopup = []
   \<and> \<not> payloadRequired sampleModalsType UpvotedPopup"
proof -
  have d: "distinct (keyof (GetComponentProps (sampleModalsType k)))" for k
    by (cases k) (simp_all add: keyof_def hostProps_def)
  show ?thesis
    using d [of ReportPost]
      payloadRequired_iff_required_field [where MT = sampleModalsType and k = ReportPost]
      payloadRequired_iff_required_field [where MT = sampleModalsType and k = SquadTour]
      payloadRequired_iff_required_field [where MT = sampleModalsType and k = SquadPromotion]
      payloadRequired_iff_required_field [where MT = sampleModalsType and k = UpvotedPopup]
    by (simp add: contractOf_filter hostProps_def keyof_def)
qed

text \<open>
  The claim as first stated, with the payload optional only for an empty contract,
  fails for a renderer whose own props are all optional: the contract of \<^verbatim>\<open>SquadTour\<close>
  in the sample typing holds \<^verbatim>\<open>className\<close>, and the payload is optional all the same.
\<close>

theorem payloadRequired_iff_empty_counterexample:
  "\<not> (\<not> payloadRequired sampleModalsType SquadTour
        \<longleftrightarrow> contractOf sampleModalsType SquadTour = [])"
  by (simp add: payloadRequired_NonOptional extendsRecordStringNever_def NonOptional_def
      Pick_def RequiredKeys_def contractOf_filter hostProps_def)

section \<open>Properties of the request validator\<close>

lemma find_Some_holds: "List.find P xs = Some x \<Longrightarrow> P x \<and> x \<in> set xs"
  by (induction xs) (auto split: if_splits)

lemma firstMissingRequired_None:
  "firstMissingRequired C p = None
     \<longleftrightarrow> (\<forall>f \<in> set C. \<not> optional f \<longrightarrow> pname f \<in> set (map fst p))"
  by (auto simp: firstMissingRequired_def find_None_iff)

lemma firstMissingRequired_Some:
  "firstMissingRequired C p = Some f
     \<Longrightarrow> f \<in> set C \<and> \<not> optional f \<and> pname f \<notin> set (map fst p)"
  unfolding firstMissingRequired_def by (drule find_Some_holds) simp

lemma firstUnknownField_None:
  "firstUnknownField C p = None \<longleftrightarrow> (\<forall>n \<in> set (map fst p). n \<in> set (keyof C))"
  by (auto simp: firstUnknownField_def find_None_iff)

text \<open>
  C4: a request without a payload is accepted exactly when the payload of the variant is
  not required; when it is required, the request is rejected as
  \<^verbatim>\<open>ContractViolation(MissingPayload, id)\<close>.
\<close>

theorem buildRequest_no_payload:
  "((\<exists>r. buildRequest MT k (None :: (string \<times> 'v) list option) = Inr r)
      \<longleftrightarrow> \<not> payloadRequired MT k)
   \<and> (\<not> payloadRequired MT k \<longrightarrow>
        buildRequest MT k (None :: (string \<times> 'v) list option)
          = Inr \<lparr>variant = k, payload = None\<rparr>)
   \<and> (payloadRequired MT k \<longrightarrow>
        buildRequest MT k (None :: (string \<times> 'v) list option) = Inl (MissingPayload k))"
  by (simp add: buildRequest_def)

theorem buildRequest_no_payload_witness:
  "buildRequest sampleModalsType UpvotedPopup (None :: (string \<times> string) list option)
     = Inr \<lparr>variant = UpvotedPopup, payload = None\<rparr>
   \<and> buildRequest sampleModalsType ReportPost (None :: (string \<times> string) list option)
     = Inl (MissingPayload ReportPost)"
  using buildRequest_no_payload [of sampleModalsType UpvotedPopup, where ?'v = string]
    buildRequest_no_payload [of sampleModalsType ReportPost, where ?'v = string]
  by (simp add: payloadRequired_NonOptional extendsRecordStringNever_def NonOptional_def
      Pick_def RequiredKeys_def contractOf_filter hostProps_def)

text \<open>
  C5: for a payload that is present, when some field marked required in the contract is
  absent from it the request is rejected as \<^verbatim>\<open>ContractViolation(MissingField, id, field)\<close>
  for such a field; when all required fields are present and the payload has no field
  outside the contract, the request is accepted. Every field of the contract is a prop
  of the renderer, with the marking declared there.
\<close>

theorem buildRequest_missing_field:
  "((\<exists>f \<in> set (contractOf MT k). \<not> optional f \<and> pname f \<notin> set (map fst p)) \<longrightarrow>
      (\<exists>f \<in> set (contractOf MT k). \<not> optional f \<and> pname f \<notin> set (map fst p)
         \<and> buildRequest MT k (Some p) = Inl (MissingField k (pname f))))
   \<and> ((\<forall>f \<in> set (contractOf MT k). \<not> optional f \<longrightarrow> pname f \<in> set (map fst p))
        \<and> (\<forall>n \<in> set (map fst p). n \<in> set (keyof (contractOf MT k))) \<longrightarrow>
      buildRequest MT k (Some p) = Inr \<lparr>variant = k, payload = Some p\<rparr>)
   \<and> set (contractOf MT k) \<subseteq> set (GetComponentProps (MT k))"
proof (intro conjI impI)
  assume "\<exists>f \<in> set (contractOf MT k). \<not> optional f \<and> pname f \<notin> set (map fst p)"
  then have "firstMissingRequired (contractOf MT k) p \<noteq> None"
    by (auto simp: firstMissingRequired_None)
  then obtain f where f: "firstMissingRequired (contractOf MT k) p = Some f"
    by blast
  then have "buildRequest MT k (Some p) = Inl (MissingField k (pname f))"
    by (simp add: buildRequest_def)
  with firstMissingRequired_Some [OF f]
  show "\<exists>f \<in> set (contractOf MT k). \<not> optional f \<and> pname f \<notin> set (map fst p)
         \<and> buildRequest MT k (Some p) = Inl (MissingField k (pname f))"
    by blast
next
  assume "(\<forall>f \<in> set (contractOf MT k). \<not> optional f \<longrightarrow> pname f \<in> set (map fst p))
        \<and> (\<forall>n \<in> set (map fst p). n \<in> set (keyof (contractOf MT k)))"
  then have "firstMissingRequired (contractOf MT k) p = None"
    and "firstUnknownField (contractOf MT k) p = None"
    unfolding firstMissingRequired_None firstUnknownField_None by blast+
  then show "buildRequest MT k (Some p) = Inr \<lparr>variant = k, payload = Some p\<rparr>"
    by (simp add: buildRequest_def)
next
  show "set (contractOf MT k) \<subseteq> set (GetComponentProps (MT k))"
    by (auto simp: contractOf_filter)
qed

theorem buildRequest_missing_field_witness:
  "buildRequest sampleModalsType CreateSharedPost (Some [(''title'', ''x'')])
     = Inr \<lparr>variant = CreateSharedPost, payload = Some [(''title'', ''x'')]\<rparr>
   \<and> buildRequest sampleModalsType CreateSharedPost (Some ([] :: (string \<times> string) list))
     = Inl (MissingField CreateSharedPost ''title'')"
  using buildRequest_missing_field [of sampleModalsType CreateSharedPost "[(''title'', ''x'')]"]
    buildRequest_missing_field [of sampleModalsType CreateSharedPost
      "[] :: (string \<times> string) list"]
  by (simp add: contractOf_filter hostProps_def keyof_def)

end
